theory Spec2Isabelle
  imports Main "HOL-Library.AList" "HOL-Library.Word" "HOL-Library.Sublist"
begin

section \<open>JavaScript values and the platform operations the client uses\<close>

text \<open>
  The client of \<^verbatim>\<open>src/main.js\<close> handles untyped JavaScript values: the session
  token is whatever \<^verbatim>\<open>json.token\<close> was, a query parameter is whatever the caller
  put in the object. A value is modelled by the datatype below. A number is modelled by
  what the client observes of it, its truth value and the text \<^verbatim>\<open>String\<close> prints:
  \<open>Num\<close> holds an integer from \<open>- 2 ^ 53\<close> to \<open>2 ^ 53 - 1\<close> (a 54-bit two's complement
  word, read by \<open>sint\<close>); every such integer is a JavaScript number and \<^verbatim>\<open>String\<close>
  prints it as a decimal numeral (\<^verbatim>\<open>-0\<close> is \<open>Num 0\<close>: it prints \<^verbatim>\<open>0\<close> and is falsy).
  \<open>NumOther\<close> holds any other number, a fraction, a number beyond that range,
  \<^verbatim>\<open>NaN\<close> or an infinity, by the text \<^verbatim>\<open>String\<close> prints for it (\<^verbatim>\<open>1.5\<close>,
  \<^verbatim>\<open>1e+21\<close>, \<^verbatim>\<open>NaN\<close>, \<^verbatim>\<open>-Infinity\<close>).
  \<open>Bytes\<close> is an \<^verbatim>\<open>ArrayBuffer\<close>; \<open>Obj\<close> lists the own enumerable properties
  of a plain object in enumeration order (the keys of a JavaScript object are distinct).
  A JavaScript string is modelled by its UTF-8 bytes.
\<close>

type_synonym byte = "8 word"

type_synonym integer54 = "54 word"

datatype jsval =
    Undefined
  | Null
  | Bool bool
  | Num integer54
  | NumOther string
  | Str string
  | Arr "jsval list"
  | Obj "(string \<times> jsval) list"
  | Bytes "byte list"

datatype error =
    Error string
  | TypeError
  | SyntaxError
  | NetworkError string

text \<open>\<^verbatim>\<open>Boolean(v)\<close>, the test behind \<^verbatim>\<open>!v\<close>, \<^verbatim>\<open>v ? a : b\<close> and \<^verbatim>\<open>filter(Boolean)\<close>.\<close>

fun truthy :: "jsval \<Rightarrow> bool" where
  "truthy Undefined = False"
| "truthy Null = False"
| "truthy (Bool b) = b"
| "truthy (Num n) = (n \<noteq> 0)"
| "truthy (NumOther t) = (t \<noteq> ''NaN'')"
| "truthy (Str s) = (s \<noteq> [])"
| "truthy (Arr xs) = True"
| "truthy (Obj fs) = True"
| "truthy (Bytes bs) = True"

text \<open>\<^verbatim>\<open>Array.prototype.join\<close> on strings.\<close>

fun join :: "string \<Rightarrow> string list \<Rightarrow> string" where
  "join sep [] = []"
| "join sep [x] = x"
| "join sep (x # y # ys) = x @ sep @ join sep (y # ys)"

fun digit_chars :: "nat \<Rightarrow> string" where
  "digit_chars n = (if n < 10 then [char_of (48 + n)] else digit_chars (n div 10) @ [char_of (48 + n mod 10)])"

declare digit_chars.simps [simp del]

definition show_int :: "int \<Rightarrow> string" where
  "show_int i = (if i < 0 then CHR ''-'' # digit_chars (nat (- i)) else digit_chars (nat i))"

text \<open>
  \<^verbatim>\<open>String(v)\<close>, the conversion behind template literals, \<^verbatim>\<open>encodeURIComponent\<close>
  and \<^verbatim>\<open>URLSearchParams\<close>. An array prints its elements separated by commas, with
  \<^verbatim>\<open>null\<close> and \<^verbatim>\<open>undefined\<close> elements printed as the empty string.
\<close>

fun to_string :: "jsval \<Rightarrow> string" where
  "to_string Undefined = ''undefined''"
| "to_string Null = ''null''"
| "to_string (Bool b) = (if b then ''true'' else ''false'')"
| "to_string (Num n) = show_int (sint n)"
| "to_string (NumOther t) = t"
| "to_string (Str s) = s"
| "to_string (Arr xs) =
     join '','' (map (\<lambda>x. if x = Null \<or> x = Undefined then [] else to_string x) xs)"
| "to_string (Obj fs) = ''[object Object]''"
| "to_string (Bytes bs) = ''[object ArrayBuffer]''"

text \<open>\<^verbatim>\<open>xs.join(sep)\<close> on an array of values.\<close>

definition array_join :: "string \<Rightarrow> jsval list \<Rightarrow> string" where
  "array_join sep xs =
     join sep (map (\<lambda>x. if x = Null \<or> x = Undefined then [] else to_string x) xs)"

text \<open>
  \<^verbatim>\<open>v.k\<close> for the data properties the client reads (\<^verbatim>\<open>errors\<close>, \<^verbatim>\<open>title\<close>,
  \<^verbatim>\<open>token\<close>, \<^verbatim>\<open>org\<close>, \<^verbatim>\<open>two_factor\<close>, \<^verbatim>\<open>data\<close>): reading a property of
  \<^verbatim>\<open>null\<close> or \<^verbatim>\<open>undefined\<close> throws a TypeError, a missing property reads as
  \<^verbatim>\<open>undefined\<close>, and no primitive, array or buffer has one of these properties.
\<close>

fun get_prop :: "jsval \<Rightarrow> string \<Rightarrow> error + jsval" where
  "get_prop Undefined k = Inl TypeError"
| "get_prop Null k = Inl TypeError"
| "get_prop (Obj fs) k = Inr (case map_of fs k of None \<Rightarrow> Undefined | Some v \<Rightarrow> v)"
| "get_prop v k = Inr Undefined"

text \<open>
  \<^verbatim>\<open>v == "404"\<close>. A number is compared with the number the string denotes (a number
  held by \<open>NumOther\<close> is not the integer 404); a string
  is compared as a string; a boolean is first converted to 0 or 1; \<^verbatim>\<open>null\<close> and
  \<^verbatim>\<open>undefined\<close> equal only each other; an object is first converted to its string.
\<close>

fun loose_eq_404 :: "jsval \<Rightarrow> bool" where
  "loose_eq_404 Undefined = False"
| "loose_eq_404 Null = False"
| "loose_eq_404 (Bool b) = False"
| "loose_eq_404 (Num n) = (n = 404)"
| "loose_eq_404 (NumOther t) = False"
| "loose_eq_404 (Str s) = (s = ''404'')"
| "loose_eq_404 v = (to_string v = ''404'')"


section \<open>Percent-encoding\<close>

definition is_alnum :: "char \<Rightarrow> bool" where
  "is_alnum c = (let n = (of_char c :: nat) in
     (48 \<le> n \<and> n \<le> 57) \<or> (65 \<le> n \<and> n \<le> 90) \<or> (97 \<le> n \<and> n \<le> 122))"

definition hex_digit :: "nat \<Rightarrow> char" where
  "hex_digit n = (if n < 10 then char_of (48 + n) else char_of (55 + n))"

definition percent :: "char \<Rightarrow> string" where
  "percent c = [CHR ''%'', hex_digit ((of_char c :: nat) div 16), hex_digit ((of_char c :: nat) mod 16)]"

text \<open>
  \<^verbatim>\<open>encodeURIComponent\<close>: letters, digits and \<^verbatim>\<open>- _ . ! ~ * ' ( )\<close> are kept, every
  other byte of the UTF-8 form is written as \<^verbatim>\<open>%XX\<close>.
\<close>

definition uri_unreserved :: "char \<Rightarrow> bool" where
  "uri_unreserved c = (is_alnum c \<or> c \<in> set ''-_.!~*()'' \<or> c = CHR 0x27)"

definition encodeURIComponent :: "string \<Rightarrow> string" where
  "encodeURIComponent s = concat (map (\<lambda>c. if uri_unreserved c then [c] else percent c) s)"

text \<open>
  The serializer of \<^verbatim>\<open>URLSearchParams\<close> (\<^verbatim>\<open>application/x-www-form-urlencoded\<close>):
  letters, digits and \<^verbatim>\<open>* - . _\<close> are kept, a space becomes \<^verbatim>\<open>+\<close>, every other byte
  is written as \<^verbatim>\<open>%XX\<close>.
\<close>

definition form_safe :: "char \<Rightarrow> bool" where
  "form_safe c = (is_alnum c \<or> c \<in> set ''*-._'')"

definition form_encode :: "string \<Rightarrow> string" where
  "form_encode s = concat (map (\<lambda>c. if c = CHR '' '' then ''+''
                                      else if form_safe c then [c] else percent c) s)"

text \<open>
  \<^verbatim>\<open>new URLSearchParams(params).toString()\<close> for a plain object \<open>params\<close>: one
  \<^verbatim>\<open>name=value\<close> pair per own property, in order, values converted with \<^verbatim>\<open>String\<close>.
\<close>

definition search_pair :: "string \<times> jsval \<Rightarrow> string" where
  "search_pair kv = form_encode (fst kv) @ ''='' @ form_encode (to_string (snd kv))"

definition URLSearchParams_toString :: "(string \<times> jsval) list \<Rightarrow> string" where
  "URLSearchParams_toString params = join ''&'' (map search_pair params)"

section \<open>Responses, requests and the session\<close>

text \<open>
  A response as the network delivers it. \<open>json_body\<close> is the value
  \<^verbatim>\<open>response.json()\<close> resolves to, \<open>None\<close> when the body is not JSON and the
  promise rejects; \<open>raw_body\<close> is what \<^verbatim>\<open>arrayBuffer()\<close> resolves to.
\<close>

record response =
  status :: jsval
  statusText :: string
  ok :: bool
  raw_body :: "byte list"
  json_body :: "jsval option"

text \<open>A response object in the program: its body can be read once.\<close>

record live_response =
  resp :: response
  bodyUsed :: bool

definition fresh :: "response \<Rightarrow> live_response" where
  "fresh r = \<lparr>resp = r, bodyUsed = False\<rparr>"

definition resp_json :: "live_response \<Rightarrow> (error + jsval) \<times> live_response" where
  "resp_json lr =
     (if bodyUsed lr then (Inl TypeError, lr)
      else (case json_body (resp lr) of None \<Rightarrow> Inl SyntaxError | Some v \<Rightarrow> Inr v,
            lr\<lparr>bodyUsed := True\<rparr>))"

definition resp_arrayBuffer :: "live_response \<Rightarrow> (error + jsval) \<times> live_response" where
  "resp_arrayBuffer lr =
     (if bodyUsed lr then (Inl TypeError, lr)
      else (Inr (Bytes (raw_body (resp lr))), lr\<lparr>bodyUsed := True\<rparr>))"

definition resp_clone :: "live_response \<Rightarrow> error + live_response" where
  "resp_clone lr = (if bodyUsed lr then Inl TypeError else Inr lr)"

text \<open>The options object of a call (its \<^verbatim>\<open>method\<close> property is the field \<open>http_method\<close>),
  the URL object and what \<^verbatim>\<open>fetch\<close> receives.\<close>

record options =
  http_method :: "string option"
  headers :: "(string \<times> jsval) list option"
  body :: "string option"

record url =
  href :: string
  search :: string

record fetch_call =
  fc_url :: url
  fc_init :: options

type_synonym network = "fetch_call \<Rightarrow> error + response"

record session =
  authToken :: jsval
  org :: jsval
  isTwoFactor :: jsval

definition new_session :: session where
  "new_session = \<lparr>authToken = Null, org = Null, isTwoFactor = Null\<rparr>"

datatype version = V4 | V3

fun baseUrl :: "version \<Rightarrow> string" where
  "baseUrl V4 = ''https://www.photoshelter.com/psapi/v4.0''"
| "baseUrl V3 = ''https://www.photoshelter.com/psapi/v3''"

fun login_path :: "version \<Rightarrow> string" where
  "login_path V4 = ''/authenticate''"
| "login_path V3 = ''/mem/authenticate''"

section \<open>The pipeline of \<^verbatim>\<open>src/main.js\<close>\<close>

text \<open>\<^verbatim>\<open>json.errors.map((e) => e.title)\<close>.\<close>

fun map_title :: "jsval list \<Rightarrow> error + jsval list" where
  "map_title [] = Inr []"
| "map_title (e # es) =
     (case get_prop e ''title'' of
        Inl err \<Rightarrow> Inl err
      | Inr t \<Rightarrow> (case map_title es of Inl err \<Rightarrow> Inl err | Inr ts \<Rightarrow> Inr (t # ts)))"

text \<open>
  \<open>handleErrors\<close> never returns: the model gives the error it throws and the response
  object as it leaves it.
\<close>

definition handleErrors :: "live_response \<Rightarrow> string \<Rightarrow> error \<times> live_response" where
  "handleErrors response location =
     (if loose_eq_404 (status (resp response))
      then (Error (''Request Failed. Request Response: '' @ location @ '' = ''
                     @ statusText (resp response)), response)
      else (case resp_json response of
              (Inl e, response') \<Rightarrow> (e, response')
            | (Inr json, response') \<Rightarrow>
                (case get_prop json ''errors'' of
                   Inl e \<Rightarrow> (e, response')
                 | Inr (Arr es) \<Rightarrow>
                     (case map_title es of
                        Inl e \<Rightarrow> (e, response')
                      | Inr ts \<Rightarrow>
                          (Error (''Request Failed. Request Response: '' @ location @ '' = ''
                                    @ array_join '' | '' (filter truthy ts)), response'))
                 | Inr _ \<Rightarrow> (TypeError, response'))))"

text \<open>The two unwrappers: \<open>responseType V4\<close> (variant A) and \<open>responseType V3\<close> (variant B).\<close>

fun responseType :: "version \<Rightarrow> live_response \<Rightarrow> error + jsval" where
  "responseType V4 response =
     (case resp_clone response of
        Inl e \<Rightarrow> Inl e
      | Inr clone \<Rightarrow>
          (case fst (resp_json response) of
             Inr json \<Rightarrow> Inr json
           | Inl _ \<Rightarrow> fst (resp_arrayBuffer clone)))"
| "responseType V3 response =
     (case resp_clone response of
        Inl e \<Rightarrow> Inl e
      | Inr clone \<Rightarrow>
          (case fst (resp_json response) of
             Inr json \<Rightarrow>
               (case get_prop json ''data'' of
                  Inr d \<Rightarrow> Inr d
                | Inl _ \<Rightarrow> fst (resp_arrayBuffer clone))
           | Inl _ \<Rightarrow> fst (resp_arrayBuffer clone)))"

text \<open>
  \<^verbatim>\<open>{...options.headers, "X-PS-Auth-Token": authToken, "X-PS-API-Key": apiKey,
  "Content-Type": "application/json"}\<close>: the caller's properties are copied first, then
  the three literal properties are set, in place where the key exists already.
\<close>

definition merge_headers :: "(string \<times> jsval) list option \<Rightarrow> jsval \<Rightarrow> string \<Rightarrow> (string \<times> jsval) list" where
  "merge_headers hs tok apiKey =
     AList.update ''Content-Type'' (Str ''application/json'')
       (AList.update ''X-PS-API-Key'' (Str apiKey)
          (AList.update ''X-PS-Auth-Token'' tok
             (case hs of None \<Rightarrow> [] | Some h \<Rightarrow> h)))"

text \<open>
  \<open>request\<close> returns what the call returns or throws, the calls of \<^verbatim>\<open>fetch\<close> it made, and
  the caller's options object as the call leaves it.
\<close>

definition request ::
  "version \<Rightarrow> string \<Rightarrow> session \<Rightarrow> network \<Rightarrow> string \<Rightarrow> (string \<times> jsval) list \<Rightarrow> options
     \<Rightarrow> (error + jsval) \<times> fetch_call list \<times> options" where
  "request ver apiKey s net endpoint params opts =
     (if \<not> truthy (authToken s)
      then (Inl (Error ''No auth token. Make sure to authenticate.login() first''), [], opts)
      else
        let opts' = opts\<lparr>headers := Some (merge_headers (headers opts) (authToken s) apiKey)\<rparr>;
            u = \<lparr>href = baseUrl ver @ endpoint, search = URLSearchParams_toString params\<rparr>;
            call = \<lparr>fc_url = u, fc_init = opts'\<rparr>
        in (case net call of
              Inl e \<Rightarrow> (Inl e, [call], opts')
            | Inr response \<Rightarrow>
                if \<not> ok response
                then (Inl (fst (handleErrors (fresh response) endpoint)), [call], opts')
                else (responseType ver (fresh response), [call], opts')))"

text \<open>\<open>toForm\<close>, on the own properties of its argument in order.\<close>

definition toForm :: "(string \<times> jsval) list \<Rightarrow> string" where
  "toForm obj =
     join ''&''
       (filter (\<lambda>s. s \<noteq> [])
          (map (\<lambda>kv. if truthy (snd kv)
                      then encodeURIComponent (fst kv) @ ''='' @ encodeURIComponent (to_string (snd kv))
                      else [])
               obj))"

definition login_call :: "version \<Rightarrow> string \<Rightarrow> string \<Rightarrow> fetch_call" where
  "login_call ver apiKey b =
     \<lparr>fc_url = \<lparr>href = baseUrl ver @ login_path ver, search = []\<rparr>,
      fc_init = \<lparr>http_method = Some ''POST'',
                 headers = Some [(''content-type'', Str ''application/x-www-form-urlencoded''),
                                 (''X-PS-Api-Key'', Str apiKey)],
                 body = Some b\<rparr>\<rparr>"

text \<open>
  \<open>login\<close> returns normally or throws; the model also gives the calls of \<^verbatim>\<open>fetch\<close>
  it made and the session as it leaves it. The three assignments run in order.
\<close>

definition login ::
  "version \<Rightarrow> string \<Rightarrow> session \<Rightarrow> network \<Rightarrow> jsval \<Rightarrow> jsval \<Rightarrow> jsval
     \<Rightarrow> (error + unit) \<times> fetch_call list \<times> session" where
  "login ver apiKey s net email password orgId =
     (let b = toForm [(''email'', email), (''password'', password),
                      (''mode'', Str ''token''), (''org_id'', orgId)];
          call = login_call ver apiKey b
      in (case net call of
            Inl e \<Rightarrow> (Inl e, [call], s)
          | Inr response \<Rightarrow>
              if \<not> ok response
              then (Inl (fst (handleErrors (fresh response) ''login'')), [call], s)
              else
                (case responseType ver (fresh response) of
                   Inl e \<Rightarrow> (Inl e, [call], s)
                 | Inr json \<Rightarrow>
                     (case get_prop json ''token'' of
                        Inl e \<Rightarrow> (Inl e, [call], s)
                      | Inr t \<Rightarrow>
                          (case get_prop json ''org'' of
                             Inl e \<Rightarrow> (Inl e, [call], s\<lparr>authToken := t\<rparr>)
                           | Inr g \<Rightarrow>
                               (case get_prop json ''two_factor'' of
                                  Inl e \<Rightarrow> (Inl e, [call], s\<lparr>authToken := t, org := g\<rparr>)
                                | Inr f \<Rightarrow>
                                    (Inr (), [call],
                                     s\<lparr>authToken := t, org := g, isTwoFactor := f\<rparr>)))))))"


section \<open>The earlier client of \<^verbatim>\<open>src/unnamed/part_000\<close>\<close>

text \<open>
  The second source file holds an earlier \<^verbatim>\<open>PhotoShelterV4API\<close>. Its \<^verbatim>\<open>request\<close> has
  the same token check, header merge and query string, but parses the body before it looks
  at \<^verbatim>\<open>response.ok\<close>; its \<^verbatim>\<open>handleErrors\<close> takes the parsed body; its \<^verbatim>\<open>toForm\<close>
  has no filter; its session is the token alone.
\<close>

text \<open>
  \<^verbatim>\<open>json.errors.reduce((n, t, i) => { t += ... n.title ... }, "")\<close>: the callback reads
  \<^verbatim>\<open>n.title\<close> of the accumulator \<open>n\<close>, assigns to its own parameter \<open>t\<close> and returns
  nothing, so the next accumulator is \<^verbatim>\<open>undefined\<close>.
\<close>

fun legacy_reduce :: "jsval \<Rightarrow> jsval list \<Rightarrow> error + jsval" where
  "legacy_reduce n [] = Inr n"
| "legacy_reduce n (t # ts) =
     (case get_prop n ''title'' of
        Inl e \<Rightarrow> Inl e
      | Inr _ \<Rightarrow> legacy_reduce Undefined ts)"

definition legacy_handleErrors :: "jsval \<Rightarrow> error" where
  "legacy_handleErrors json =
     (case get_prop json ''errors'' of
        Inl e \<Rightarrow> e
      | Inr (Arr es) \<Rightarrow>
          (case legacy_reduce (Str []) es of
             Inl e \<Rightarrow> e
           | Inr msg \<Rightarrow> Error (''Request Failed. Request Response: '' @ to_string msg))
      | Inr _ \<Rightarrow> TypeError)"

definition legacy_request ::
  "string \<Rightarrow> jsval \<Rightarrow> network \<Rightarrow> string \<Rightarrow> (string \<times> jsval) list \<Rightarrow> options
     \<Rightarrow> (error + jsval) \<times> fetch_call list \<times> options" where
  "legacy_request apiKey tok net endpoint params opts =
     (if \<not> truthy tok
      then (Inl (Error ''No auth token. Make sure to authenticate.login() first''), [], opts)
      else
        let opts' = opts\<lparr>headers := Some (merge_headers (headers opts) tok apiKey)\<rparr>;
            u = \<lparr>href = baseUrl V4 @ endpoint, search = URLSearchParams_toString params\<rparr>;
            call = \<lparr>fc_url = u, fc_init = opts'\<rparr>
        in (case net call of
              Inl e \<Rightarrow> (Inl e, [call], opts')
            | Inr response \<Rightarrow>
                (case fst (resp_json (fresh response)) of
                   Inl e \<Rightarrow> (Inl e, [call], opts')
                 | Inr json \<Rightarrow>
                     if \<not> ok response
                     then (Inl (legacy_handleErrors json), [call], opts')
                     else (Inr json, [call], opts'))))"

definition legacy_toForm :: "(string \<times> jsval) list \<Rightarrow> string" where
  "legacy_toForm obj =
     join ''&''
       (map (\<lambda>kv. encodeURIComponent (fst kv) @ ''='' @ encodeURIComponent (to_string (snd kv)))
            obj)"

definition legacy_login ::
  "string \<Rightarrow> jsval \<Rightarrow> network \<Rightarrow> jsval \<Rightarrow> jsval \<Rightarrow> jsval
     \<Rightarrow> (error + unit) \<times> fetch_call list \<times> jsval" where
  "legacy_login apiKey tok net email password orgId =
     (let b = legacy_toForm [(''email'', email), (''password'', password),
                             (''mode'', Str ''token''), (''org_id'', orgId)];
          call = login_call V4 apiKey b
      in (case net call of
            Inl e \<Rightarrow> (Inl e, [call], tok)
          | Inr response \<Rightarrow>
              (case fst (resp_json (fresh response)) of
                 Inl e \<Rightarrow> (Inl e, [call], tok)
               | Inr json \<Rightarrow>
                   if \<not> ok response
                   then (Inl (legacy_handleErrors json), [call], tok)
                   else
                     (case get_prop json ''token'' of
                        Inl e \<Rightarrow> (Inl e, [call], tok)
                      | Inr t \<Rightarrow> (Inr (), [call], t)))))"


section \<open>Operations of the catalogue\<close>

text \<open>
  Every operation of the catalogue other than \<open>login\<close> is one call of \<open>request\<close> with a
  path, the caller's parameters and a literal options object (159 operations in
  \<^verbatim>\<open>src/main.js\<close>, 106 in the earlier file); \<^verbatim>\<open>fetch\<close> is called nowhere else. Three of
  them, as written in the source:
  \<^verbatim>\<open>getAll: async (params = {}) => await request("/collections", params)\<close>,
  \<^verbatim>\<open>add: async (data) => await request("/faces", data, { method: "POST", headers:
  { "Content-Type": "application/x-www-form-urlencoded" } })\<close> and, in the v3 client,
  \<^verbatim>\<open>getMediaReview: async (workspaceId, mediaId) =>
  await request(`/workspace/${workspaceId}/media/${mediaId}/review`)\<close>.
\<close>

definition no_options :: options where
  "no_options = \<lparr>http_method = None, headers = None, body = None\<rparr>"

definition collections_getAll ::
  "string \<Rightarrow> session \<Rightarrow> network \<Rightarrow> (string \<times> jsval) list
     \<Rightarrow> (error + jsval) \<times> fetch_call list \<times> options" where
  "collections_getAll apiKey s net params = request V4 apiKey s net ''/collections'' params no_options"

definition faces_add ::
  "string \<Rightarrow> session \<Rightarrow> network \<Rightarrow> (string \<times> jsval) list
     \<Rightarrow> (error + jsval) \<times> fetch_call list \<times> options" where
  "faces_add apiKey s net data =
     request V4 apiKey s net ''/faces'' data
       \<lparr>http_method = Some ''POST'',
        headers = Some [(''Content-Type'', Str ''application/x-www-form-urlencoded'')],
        body = None\<rparr>"

definition workspaces_getMediaReview ::
  "string \<Rightarrow> session \<Rightarrow> network \<Rightarrow> jsval \<Rightarrow> jsval
     \<Rightarrow> (error + jsval) \<times> fetch_call list \<times> options" where
  "workspaces_getMediaReview apiKey s net workspaceId mediaId =
     request V3 apiKey s net
       (''/workspace/'' @ to_string workspaceId @ ''/media/'' @ to_string mediaId @ ''/review'')
       [] no_options"

section \<open>Observations\<close>

text \<open>The calls of \<^verbatim>\<open>fetch\<close> a run made, and a header of one call.\<close>

definition fetches :: "'a \<times> fetch_call list \<times> 'b \<Rightarrow> fetch_call list" where
  "fetches run = fst (snd run)"

definition header_of :: "fetch_call \<Rightarrow> string \<Rightarrow> jsval option" where
  "header_of c k = (case headers (fc_init c) of None \<Rightarrow> None | Some h \<Rightarrow> map_of h k)"

definition headers_sent :: "string \<Rightarrow> 'a \<times> fetch_call list \<times> 'b \<Rightarrow> jsval option list" where
  "headers_sent k run = map (\<lambda>c. header_of c k) (fetches run)"

definition searches_sent :: "'a \<times> fetch_call list \<times> 'b \<Rightarrow> string list" where
  "searches_sent run = map (\<lambda>c. search (fc_url c)) (fetches run)"

definition bodies_sent :: "'a \<times> fetch_call list \<times> 'b \<Rightarrow> string option list" where
  "bodies_sent run = map (\<lambda>c. body (fc_init c)) (fetches run)"

text \<open>The options object after a call of \<open>request\<close>, the session after a \<open>login\<close>.\<close>

definition left_behind :: "'a \<times> fetch_call list \<times> 'b \<Rightarrow> 'b" where
  "left_behind run = snd (snd run)"

text \<open>
  Reading a query string or form body back as the receiving side does: cut at every
  \<^verbatim>\<open>&\<close>, then cut each piece at its first \<^verbatim>\<open>=\<close>.
\<close>

fun split_on :: "char \<Rightarrow> string \<Rightarrow> string list" where
  "split_on d [] = [[]]"
| "split_on d (c # cs) =
     (if c = d then [] # split_on d cs
      else (case split_on d cs of [] \<Rightarrow> [[c]] | x # xs \<Rightarrow> (c # x) # xs))"

definition name_value :: "string \<Rightarrow> string \<times> string" where
  "name_value p = (takeWhile (\<lambda>c. c \<noteq> CHR ''='') p, drop 1 (dropWhile (\<lambda>c. c \<noteq> CHR ''='') p))"

definition query_pairs :: "string \<Rightarrow> (string \<times> string) list" where
  "query_pairs q = (if q = [] then [] else map name_value (split_on CHR ''&'' q))"

text \<open>
  Decoding a name or a value as the receiving side does: \<^verbatim>\<open>+\<close> is a space, \<^verbatim>\<open>%\<close>
  followed by two hexadecimal digits is the byte they denote, every other character is
  itself.
\<close>

definition is_hex :: "char \<Rightarrow> bool" where
  "is_hex c = (let n = (of_char c :: nat) in
     (48 \<le> n \<and> n \<le> 57) \<or> (65 \<le> n \<and> n \<le> 70) \<or> (97 \<le> n \<and> n \<le> 102))"

definition hex_value :: "char \<Rightarrow> nat" where
  "hex_value c = (let n = (of_char c :: nat) in
     if n \<le> 57 then n - 48 else if n \<le> 70 then n - 55 else n - 87)"

fun form_decode :: "string \<Rightarrow> string" where
  "form_decode [] = []"
| "form_decode (c # cs) =
     (if c = CHR ''+'' then CHR '' '' # form_decode cs
      else if c = CHR ''%'' \<and> length cs \<ge> 2 \<and> is_hex (cs ! 0) \<and> is_hex (cs ! 1)
      then char_of (16 * hex_value (cs ! 0) + hex_value (cs ! 1)) # form_decode (drop 2 cs)
      else c # form_decode cs)"

text \<open>Reading a decimal numeral, with an optional minus sign, back as an integer.\<close>

definition decimal_value :: "string \<Rightarrow> nat" where
  "decimal_value ds = foldl (\<lambda>a c. 10 * a + ((of_char c :: nat) - 48)) 0 ds"

definition read_int :: "string \<Rightarrow> int" where
  "read_int t = (case t of
       [] \<Rightarrow> 0
     | c # ds \<Rightarrow> if c = CHR ''-'' then - int (decimal_value ds) else int (decimal_value (c # ds)))"

text \<open>
  The titles of an error list in the words of the specification: the \<open>title\<close> of every
  object that has one.
\<close>

fun spec_present_titles :: "jsval list \<Rightarrow> jsval list" where
  "spec_present_titles [] = []"
| "spec_present_titles (Obj fs # es) =
     (case map_of fs ''title'' of
        None \<Rightarrow> spec_present_titles es
      | Some t \<Rightarrow> t # spec_present_titles es)"
| "spec_present_titles (e # es) = spec_present_titles es"

text \<open>The non-empty string titles of an error list, in order.\<close>

fun nonempty_titles :: "jsval list \<Rightarrow> string list" where
  "nonempty_titles [] = []"
| "nonempty_titles (Obj fs # es) =
     (case map_of fs ''title'' of
        Some (Str t) \<Rightarrow> (if t = [] then nonempty_titles es else t # nonempty_titles es)
      | _ \<Rightarrow> nonempty_titles es)"
| "nonempty_titles (e # es) = nonempty_titles es"

text \<open>An error object of the server: an object whose \<open>title\<close>, if it has one, is a string.\<close>

fun error_object :: "jsval \<Rightarrow> bool" where
  "error_object (Obj fs) =
     (case map_of fs ''title'' of None \<Rightarrow> True | Some (Str t) \<Rightarrow> True | Some _ \<Rightarrow> False)"
| "error_object v = False"

section \<open>Networks and responses used as examples\<close>

definition net_respond :: "response \<Rightarrow> network" where
  "net_respond r c = Inr r"

definition net_down :: network where
  "net_down c = Inl (NetworkError ''offline'')"

definition logged_in :: session where
  "logged_in = \<lparr>authToken = Str ''tok'', org = Null, isTwoFactor = Null\<rparr>"

definition caller_options :: options where
  "caller_options =
     \<lparr>http_method = Some ''GET'', headers = Some [(''Accept'', Str ''application/json'')],
      body = None\<rparr>"

definition example_params :: "(string \<times> jsval) list" where
  "example_params =
     [(''query'', Str (''a&b c+d%/~='' @ [CHR 0xC3, CHR 0xA9])), (''page'', Num 2), (''sort'', Str []),
      (''ids'', Arr [Str ''x'', Null, Num (- 15)]), (''flag'', Bool True),
      (''big'', NumOther ''1e+21''), (''u'', Undefined)]"

definition resp_two_errors :: response where
  "resp_two_errors =
     \<lparr>status = Num 422, statusText = ''Unprocessable Entity'', ok = False, raw_body = [],
      json_body = Some (Obj [(''errors'', Arr [Obj [(''title'', Str ''Invalid field'')],
                                                Obj [(''title'', Str ''Missing param'')]])])\<rparr>"

definition resp_empty_title :: response where
  "resp_empty_title =
     \<lparr>status = Num 422, statusText = ''Unprocessable Entity'', ok = False, raw_body = [],
      json_body = Some (Obj [(''errors'', Arr [Obj [(''title'', Str [])],
                                                Obj [(''title'', Str ''Missing param'')]])])\<rparr>"

definition resp_not_found :: response where
  "resp_not_found =
     \<lparr>status = Num 404, statusText = ''Not Found'', ok = False, raw_body = [60, 104, 49, 62],
      json_body = None\<rparr>"

definition resp_binary :: response where
  "resp_binary =
     \<lparr>status = Num 200, statusText = ''OK'', ok = True, raw_body = [137, 80, 78, 71, 0, 255],
      json_body = None\<rparr>"

definition resp_null :: response where
  "resp_null =
     \<lparr>status = Num 200, statusText = ''OK'', ok = True, raw_body = [110, 117, 108, 108],
      json_body = Some Null\<rparr>"

definition resp_envelope :: response where
  "resp_envelope =
     \<lparr>status = Num 200, statusText = ''OK'', ok = True, raw_body = [],
      json_body = Some (Obj [(''data'', Obj [(''id'', Str ''abc'')]),
                             (''meta'', Obj [(''total'', Num 1)])])\<rparr>"

definition resp_token :: response where
  "resp_token =
     \<lparr>status = Num 200, statusText = ''OK'', ok = True, raw_body = [],
      json_body = Some (Obj [(''token'', Str ''abc123''), (''org'', Str ''O1''),
                             (''two_factor'', Bool False)])\<rparr>"

definition resp_unauthorized :: response where
  "resp_unauthorized =
     \<lparr>status = Num 401, statusText = ''Unauthorized'', ok = False, raw_body = [],
      json_body = Some (Obj [(''errors'', Arr [Obj [(''title'', Str ''Bad credentials'')]])])\<rparr>"


section \<open>Shared lemmas\<close>

subsection \<open>The token check and the call that follows it\<close>

lemma request_without_token:
  "\<not> truthy (authToken s) \<Longrightarrow>
     request ver apiKey s net endpoint params opts
       = (Inl (Error ''No auth token. Make sure to authenticate.login() first''), [], opts)"
  by (simp add: request_def)

lemma request_with_token:
  assumes "truthy (authToken s)"
  shows "fetches (request ver apiKey s net endpoint params opts)
           = [\<lparr>fc_url = \<lparr>href = baseUrl ver @ endpoint, search = URLSearchParams_toString params\<rparr>,
               fc_init = opts\<lparr>headers := Some (merge_headers (headers opts) (authToken s) apiKey)\<rparr>\<rparr>]"
    and "left_behind (request ver apiKey s net endpoint params opts)
           = opts\<lparr>headers := Some (merge_headers (headers opts) (authToken s) apiKey)\<rparr>"
  using assms
  by (auto simp add: request_def fetches_def left_behind_def Let_def split: sum.splits)

lemma legacy_request_with_token:
  assumes "truthy tok"
  shows "fetches (legacy_request apiKey tok net endpoint params opts)
           = [\<lparr>fc_url = \<lparr>href = baseUrl V4 @ endpoint, search = URLSearchParams_toString params\<rparr>,
               fc_init = opts\<lparr>headers := Some (merge_headers (headers opts) tok apiKey)\<rparr>\<rparr>]"
    and "left_behind (legacy_request apiKey tok net endpoint params opts)
           = opts\<lparr>headers := Some (merge_headers (headers opts) tok apiKey)\<rparr>"
  using assms
  by (auto simp add: legacy_request_def fetches_def left_behind_def Let_def split: sum.splits)

lemma catalogue_operations_without_token:
  "fetches (collections_getAll apiKey (s\<lparr>authToken := Null\<rparr>) net params) = []"
  "fetches (faces_add apiKey (s\<lparr>authToken := Null\<rparr>) net data) = []"
  "fetches (workspaces_getMediaReview apiKey (s\<lparr>authToken := Null\<rparr>) net workspaceId mediaId) = []"
  by (simp_all add: collections_getAll_def faces_add_def workspaces_getMediaReview_def
        request_def fetches_def)

subsection \<open>The merged headers\<close>

text \<open>The literal properties are written last, so they win over the caller's.\<close>

lemma map_of_merge_headers:
  "map_of (merge_headers hs tok apiKey)
     = (map_of (case hs of None \<Rightarrow> [] | Some h \<Rightarrow> h))
         (''X-PS-Auth-Token'' \<mapsto> tok, ''X-PS-API-Key'' \<mapsto> Str apiKey,
          ''Content-Type'' \<mapsto> Str ''application/json'')"
  by (simp add: merge_headers_def update_conv')

lemma dom_merge_headers:
  "fst ` set (merge_headers hs tok apiKey)
     = fst ` set (case hs of None \<Rightarrow> [] | Some h \<Rightarrow> h)
         \<union> {''X-PS-Auth-Token'', ''X-PS-API-Key'', ''Content-Type''}"
proof -
  have "fst ` set (merge_headers hs tok apiKey) = dom (map_of (merge_headers hs tok apiKey))"
    by (simp add: dom_map_of_conv_image_fst)
  also have "\<dots> = dom (map_of (case hs of None \<Rightarrow> [] | Some h \<Rightarrow> h))
                     \<union> {''X-PS-Auth-Token'', ''X-PS-API-Key'', ''Content-Type''}"
    by (simp add: map_of_merge_headers) blast
  finally show ?thesis
    by (simp add: dom_map_of_conv_image_fst)
qed

lemma request_sends_session_token:
  assumes "c \<in> set (fetches (request ver apiKey s net endpoint params opts))"
  shows "header_of c ''X-PS-Auth-Token'' = Some (authToken s)"
proof (cases "truthy (authToken s)")
  case True
  with assms show ?thesis
    by (simp add: request_with_token header_of_def map_of_merge_headers)
next
  case False
  with assms show ?thesis
    by (simp add: request_def fetches_def)
qed

lemma get_prop_defined:
  "get_prop json k = Inr v \<Longrightarrow> \<exists>w. get_prop json k' = Inr w"
  by (cases json) auto

subsection \<open>Cutting a joined string\<close>

lemma split_on_no_delim: "d \<notin> set a \<Longrightarrow> split_on d a = [a]"
  by (induction a) auto

lemma split_on_append: "d \<notin> set a \<Longrightarrow> split_on d (a @ d # rest) = a # split_on d rest"
  by (induction a) auto

lemma split_on_join_Cons:
  "\<forall>y \<in> set (x # xs). d \<notin> set y \<Longrightarrow> split_on d (join [d] (x # xs)) = x # xs"
proof (induction xs arbitrary: x)
  case Nil
  then show ?case by (simp add: split_on_no_delim)
next
  case (Cons y ys)
  then have "split_on d (join [d] (y # ys)) = y # ys" by simp
  moreover have "d \<notin> set x" using Cons.prems by simp
  ultimately show ?case by (simp add: split_on_append)
qed

lemma split_on_join:
  "xs \<noteq> [] \<Longrightarrow> \<forall>x \<in> set xs. d \<notin> set x \<Longrightarrow> split_on d (join [d] xs) = xs"
  by (cases xs) (simp_all only: split_on_join_Cons list.distinct)

lemma name_value_pair:
  "CHR ''='' \<notin> set a \<Longrightarrow> name_value (a @ CHR ''='' # b) = (a, b)"
  by (induction a) (auto simp add: name_value_def)

lemma query_pairs_join:
  assumes "\<forall>p \<in> set ps. CHR ''&'' \<notin> set (fst p) \<and> CHR ''='' \<notin> set (fst p) \<and> CHR ''&'' \<notin> set (snd p)"
  shows "query_pairs (join ''&'' (map (\<lambda>p. fst p @ ''='' @ snd p) ps)) = ps"
proof (cases ps)
  case Nil
  then show ?thesis by (simp add: query_pairs_def)
next
  case (Cons p ps')
  let ?xs = "map (\<lambda>p. fst p @ ''='' @ snd p) ps"
  have ne: "?xs \<noteq> []" using Cons by simp
  have nodelim: "\<forall>x \<in> set ?xs. CHR ''&'' \<notin> set x" using assms by auto
  have nonempty: "join ''&'' ?xs \<noteq> []"
    using Cons by (cases ps') auto
  have "split_on CHR ''&'' (join ''&'' ?xs) = ?xs"
    using split_on_join [OF ne nodelim] by simp
  moreover have "map name_value ?xs = ps"
    using assms by (induction ps) (auto simp add: name_value_pair)
  ultimately show ?thesis
    using nonempty by (simp add: query_pairs_def)
qed

subsection \<open>The two encoders never emit a separator\<close>

lemma of_char_hex_digit:
  "n < 16 \<Longrightarrow> (of_char (hex_digit n) :: nat) = (if n < 10 then 48 + n else 55 + n)"
  by (simp add: hex_digit_def)

lemma hex_digit_not_delim:
  assumes "n < 16"
  shows "hex_digit n \<noteq> CHR ''&''" and "hex_digit n \<noteq> CHR ''=''"
proof -
  have "(of_char (hex_digit n) :: nat) \<noteq> 38 \<and> (of_char (hex_digit n) :: nat) \<noteq> 61"
    using assms by (simp add: of_char_hex_digit)
  then show "hex_digit n \<noteq> CHR ''&''" and "hex_digit n \<noteq> CHR ''=''"
    by auto
qed

lemma percent_no_delim: "CHR ''&'' \<notin> set (percent c) \<and> CHR ''='' \<notin> set (percent c)"
proof -
  have hi: "(of_char c :: nat) div 16 < 16"
    using nat_of_char_less_256 [of c] by (simp add: less_mult_imp_div_less)
  have lo: "(of_char c :: nat) mod 16 < 16" by simp
  show ?thesis
    using hex_digit_not_delim [OF hi] hex_digit_not_delim [OF lo]
    by (auto simp add: percent_def)
qed

lemma form_safe_not_delim: "form_safe c \<Longrightarrow> c \<noteq> CHR ''&'' \<and> c \<noteq> CHR ''=''"
  by (auto simp add: form_safe_def is_alnum_def)

lemma uri_unreserved_not_delim: "uri_unreserved c \<Longrightarrow> c \<noteq> CHR ''&'' \<and> c \<noteq> CHR ''=''"
  by (auto simp add: uri_unreserved_def is_alnum_def)

lemma form_encode_no_delim:
  "CHR ''&'' \<notin> set (form_encode x) \<and> CHR ''='' \<notin> set (form_encode x)"
  using percent_no_delim form_safe_not_delim
  by (induction x) (auto simp add: form_encode_def)

lemma encodeURIComponent_no_delim:
  "CHR ''&'' \<notin> set (encodeURIComponent x) \<and> CHR ''='' \<notin> set (encodeURIComponent x)"
  using percent_no_delim uri_unreserved_not_delim
  by (induction x) (auto simp add: encodeURIComponent_def)

lemma query_pairs_URLSearchParams:
  "query_pairs (URLSearchParams_toString params)
     = map (\<lambda>kv. (form_encode (fst kv), form_encode (to_string (snd kv)))) params"
proof -
  let ?ps = "map (\<lambda>kv. (form_encode (fst kv), form_encode (to_string (snd kv)))) params"
  have "URLSearchParams_toString params = join ''&'' (map (\<lambda>p. fst p @ ''='' @ snd p) ?ps)"
    by (simp add: URLSearchParams_toString_def search_pair_def [abs_def] comp_def)
  moreover have "\<forall>p \<in> set ?ps. CHR ''&'' \<notin> set (fst p) \<and> CHR ''='' \<notin> set (fst p) \<and> CHR ''&'' \<notin> set (snd p)"
    using form_encode_no_delim by auto
  ultimately show ?thesis
    using query_pairs_join [of ?ps] by simp
qed

subsection \<open>The serializer of the query string, character by character\<close>

lemma form_safe_alphabet:
  "form_safe c = (c \<in> set ''ABCDEFGHIJKLMNOPQRSTUVWXYZabcdefghijklmnopqrstuvwxyz0123456789*-._'')"
proof -
  have "\<forall>c. form_safe c = (c \<in> set ''ABCDEFGHIJKLMNOPQRSTUVWXYZabcdefghijklmnopqrstuvwxyz0123456789*-._'')"
    by code_simp
  then show ?thesis by blast
qed

lemma hex_digit_table:
  "n < 16 \<Longrightarrow> hex_digit n = ''0123456789ABCDEF'' ! n"
proof -
  have "\<forall>n \<in> set [0..<16]. hex_digit n = ''0123456789ABCDEF'' ! n"
    by code_simp
  then show "n < 16 \<Longrightarrow> hex_digit n = ''0123456789ABCDEF'' ! n"
    by simp
qed

lemma hex_digit_decodes:
  assumes "n < 16"
  shows "is_hex (hex_digit n)" and "hex_value (hex_digit n) = n"
  using assms by (auto simp add: is_hex_def hex_value_def hex_digit_def)

lemma char_of_nibbles:
  "char_of (16 * ((of_char c :: nat) div 16) + (of_char c :: nat) mod 16) = c"
  by simp

lemma form_decode_percent:
  "form_decode (percent c @ rest) = c # form_decode rest"
proof -
  have hi: "(of_char c :: nat) div 16 < 16"
    using nat_of_char_less_256 [of c] by (simp add: less_mult_imp_div_less)
  have lo: "(of_char c :: nat) mod 16 < 16" by simp
  show ?thesis
    using hex_digit_decodes [OF hi] hex_digit_decodes [OF lo] char_of_nibbles [of c]
    by (simp add: percent_def)
qed

lemma form_safe_not_special: "form_safe c \<Longrightarrow> c \<noteq> CHR ''+'' \<and> c \<noteq> CHR ''%''"
  by (auto simp add: form_safe_def is_alnum_def)

lemma form_encode_Cons:
  "form_encode (c # cs)
     = (if c = CHR '' '' then ''+'' else if form_safe c then [c] else percent c) @ form_encode cs"
  by (simp add: form_encode_def)

lemma form_decode_form_encode: "form_decode (form_encode x) = x"
proof (induction x)
  case Nil
  then show ?case by (simp add: form_encode_def)
next
  case (Cons c cs)
  show ?case
  proof (cases "c = CHR '' ''")
    case True
    then show ?thesis using Cons by (simp add: form_encode_Cons)
  next
    case False
    show ?thesis
    proof (cases "form_safe c")
      case True
      then show ?thesis
        using False Cons form_safe_not_special [of c] by (simp add: form_encode_Cons)
    next
      case unsafe: False
      then have "form_encode (c # cs) = percent c @ form_encode cs"
        using False by (simp add: form_encode_Cons)
      then show ?thesis
        using Cons by (simp only: form_decode_percent)
    qed
  qed
qed

lemma hex_digit_alphabet: "n < 16 \<Longrightarrow> hex_digit n \<in> set ''0123456789ABCDEF''"
proof -
  have "\<forall>n \<in> set [0..<16]. hex_digit n \<in> set ''0123456789ABCDEF''"
    by code_simp
  then show "n < 16 \<Longrightarrow> hex_digit n \<in> set ''0123456789ABCDEF''"
    by simp
qed

lemma percent_alphabet: "set (percent c) \<subseteq> set ''%0123456789ABCDEF''"
proof -
  have hi: "(of_char c :: nat) div 16 < 16"
    using nat_of_char_less_256 [of c] by (simp add: less_mult_imp_div_less)
  have lo: "(of_char c :: nat) mod 16 < 16" by simp
  show ?thesis
    using hex_digit_alphabet [OF hi] hex_digit_alphabet [OF lo]
    by (simp add: percent_def)
qed

lemma form_encode_alphabet:
  "set (form_encode x)
     \<subseteq> set ''ABCDEFGHIJKLMNOPQRSTUVWXYZabcdefghijklmnopqrstuvwxyz0123456789*-._+%''"
proof (induction x)
  case Nil
  then show ?case by (simp add: form_encode_def)
next
  case (Cons c cs)
  have one: "set (if c = CHR '' '' then ''+'' else if form_safe c then [c] else percent c)
     \<subseteq> set ''ABCDEFGHIJKLMNOPQRSTUVWXYZabcdefghijklmnopqrstuvwxyz0123456789*-._+%''"
  proof (cases "c = CHR '' ''")
    case True
    then show ?thesis by simp
  next
    case False
    show ?thesis
    proof (cases "form_safe c")
      case True
      then have "c \<in> set ''ABCDEFGHIJKLMNOPQRSTUVWXYZabcdefghijklmnopqrstuvwxyz0123456789*-._''"
        by (simp only: form_safe_alphabet)
      then show ?thesis using False True by auto
    next
      case unsafe: False
      have "set ''%0123456789ABCDEF''
              \<subseteq> set ''ABCDEFGHIJKLMNOPQRSTUVWXYZabcdefghijklmnopqrstuvwxyz0123456789*-._+%''"
        by auto
      with percent_alphabet [of c]
      have "set (percent c)
              \<subseteq> set ''ABCDEFGHIJKLMNOPQRSTUVWXYZabcdefghijklmnopqrstuvwxyz0123456789*-._+%''"
        by (rule subset_trans)
      then show ?thesis
        using False unsafe by (simp only: if_False)
    qed
  qed
  show ?case
    using one Cons by (simp only: form_encode_Cons set_append Un_subset_iff)
qed

lemma form_encode_char:
  "form_encode (c # cs)
     = (if c = CHR '' '' then ''+''
        else if c \<in> set ''ABCDEFGHIJKLMNOPQRSTUVWXYZabcdefghijklmnopqrstuvwxyz0123456789*-._''
        then [c]
        else [CHR ''%'', ''0123456789ABCDEF'' ! ((of_char c :: nat) div 16),
              ''0123456789ABCDEF'' ! ((of_char c :: nat) mod 16)])
       @ form_encode cs"
proof -
  have hi: "(of_char c :: nat) div 16 < 16"
    using nat_of_char_less_256 [of c] by (simp add: less_mult_imp_div_less)
  have lo: "(of_char c :: nat) mod 16 < 16" by simp
  have "percent c = [CHR ''%'', ''0123456789ABCDEF'' ! ((of_char c :: nat) div 16),
              ''0123456789ABCDEF'' ! ((of_char c :: nat) mod 16)]"
    by (simp only: percent_def hex_digit_table [OF hi] hex_digit_table [OF lo])
  then show ?thesis
    by (simp only: form_encode_Cons form_safe_alphabet)
qed

lemma decoded_pairs:
  "map (\<lambda>p. (form_decode (fst p), form_decode (snd p))) (query_pairs (URLSearchParams_toString params))
     = map (\<lambda>kv. (fst kv, to_string (snd kv))) params"
  by (simp only: query_pairs_URLSearchParams) (simp add: comp_def form_decode_form_encode)

subsection \<open>Decimal numerals\<close>

lemma digit_char: "m < 10 \<Longrightarrow> char_of (48 + m :: nat) \<in> set ''0123456789''"
proof -
  have "\<forall>k \<in> set [0..<10]. char_of (48 + k :: nat) \<in> set ''0123456789''"
    by code_simp
  then show "m < 10 \<Longrightarrow> char_of (48 + m :: nat) \<in> set ''0123456789''"
    by auto
qed

lemma digit_chars_digits: "digit_chars n \<noteq> [] \<and> set (digit_chars n) \<subseteq> set ''0123456789''"
proof (induction n rule: digit_chars.induct)
  case (1 n)
  show ?case
  proof (cases "n < 10")
    case True
    then have "digit_chars n = [char_of (48 + n)]"
      by (simp add: digit_chars.simps [of n])
    then show ?thesis using digit_char [OF True] by simp
  next
    case False
    then have eq: "digit_chars n = digit_chars (n div 10) @ [char_of (48 + n mod 10)]"
      by (simp add: digit_chars.simps [of n])
    have "n mod 10 < 10" by simp
    then have "char_of (48 + n mod 10) \<in> set ''0123456789''"
      by (rule digit_char)
    then show ?thesis
      using False 1 by (simp only: eq) simp
  qed
qed

lemma decimal_value_snoc:
  "decimal_value (ds @ [c]) = 10 * decimal_value ds + ((of_char c :: nat) - 48)"
  by (simp add: decimal_value_def)

lemma decimal_value_digit_chars: "decimal_value (digit_chars n) = n"
proof (induction n rule: digit_chars.induct)
  case (1 n)
  show ?case
  proof (cases "n < 10")
    case True
    then have "digit_chars n = [char_of (48 + n)]"
      by (simp add: digit_chars.simps [of n])
    then show ?thesis using True by (simp add: decimal_value_def)
  next
    case False
    then have eq: "digit_chars n = digit_chars (n div 10) @ [char_of (48 + n mod 10)]"
      by (simp add: digit_chars.simps [of n])
    have ih: "decimal_value (digit_chars (n div 10)) = n div 10"
      using False 1 by simp
    have last_digit: "(of_char (char_of (48 + n mod 10) :: char) :: nat) - 48 = n mod 10"
      by simp
    show ?thesis
      by (simp only: eq decimal_value_snoc ih last_digit) simp
  qed
qed

lemma read_int_show_int: "read_int (show_int i) = i"
proof (cases "i < 0")
  case True
  then have "show_int i = CHR ''-'' # digit_chars (nat (- i))"
    by (simp only: show_int_def if_True)
  then have "read_int (show_int i) = - int (decimal_value (digit_chars (nat (- i))))"
    by (simp add: read_int_def)
  then show ?thesis
    using True by (simp add: decimal_value_digit_chars)
next
  case False
  then have shown: "show_int i = digit_chars (nat i)"
    by (simp only: show_int_def if_False)
  have "digit_chars (nat i) \<noteq> []"
    using digit_chars_digits [of "nat i"] by blast
  then obtain c ds where cd: "digit_chars (nat i) = c # ds"
    unfolding neq_Nil_conv by blast
  have "c \<in> set (digit_chars (nat i))"
    by (simp only: cd list.set insertI1)
  then have "c \<in> set ''0123456789''"
    using digit_chars_digits [of "nat i"] by blast
  then have "c \<noteq> CHR ''-''" by auto
  then have "read_int (c # ds) = int (decimal_value (c # ds))"
    by (simp add: read_int_def)
  then have "read_int (show_int i) = int (decimal_value (digit_chars (nat i)))"
    by (simp only: shown cd)
  then show ?thesis
    using False by (simp add: decimal_value_digit_chars)
qed

lemma show_int_alphabet: "set (show_int i) \<subseteq> set ''-0123456789''"
proof -
  have sub: "set ''0123456789'' \<subseteq> set ''-0123456789''"
    by (simp only: list.set) blast
  have minus: "CHR ''-'' \<in> set ''-0123456789''"
    by (simp only: list.set insertI1)
  show ?thesis
  proof (cases "i < 0")
    case True
    have "set (digit_chars (nat (- i))) \<subseteq> set ''-0123456789''"
      using digit_chars_digits [of "nat (- i)"] sub by blast
    then have "set (CHR ''-'' # digit_chars (nat (- i))) \<subseteq> set ''-0123456789''"
      using minus by (simp only: list.set(2) insert_subset)
    then show ?thesis
      using True by (simp only: show_int_def if_True)
  next
    case False
    have "set (digit_chars (nat i)) \<subseteq> set ''-0123456789''"
      using digit_chars_digits [of "nat i"] sub by blast
    then show ?thesis
      using False by (simp only: show_int_def if_False)
  qed
qed


subsection \<open>The form body of \<^verbatim>\<open>src/main.js\<close>\<close>

lemma toForm_as_pairs:
  "toForm obj
     = join ''&'' (map (\<lambda>p. fst p @ ''='' @ snd p)
         (map (\<lambda>kv. (encodeURIComponent (fst kv), encodeURIComponent (to_string (snd kv))))
            (filter (\<lambda>kv. truthy (snd kv)) obj)))"
proof -
  have "filter (\<lambda>s. s \<noteq> [])
          (map (\<lambda>kv. if truthy (snd kv)
                      then encodeURIComponent (fst kv) @ ''='' @ encodeURIComponent (to_string (snd kv))
                      else []) obj)
        = map (\<lambda>p. fst p @ ''='' @ snd p)
            (map (\<lambda>kv. (encodeURIComponent (fst kv), encodeURIComponent (to_string (snd kv))))
               (filter (\<lambda>kv. truthy (snd kv)) obj))"
    by (induction obj) simp_all
  then show ?thesis
    by (simp only: toForm_def)
qed

text \<open>
  Read back, the body of \<open>toForm\<close> holds one pair for each property with a truthy value
  and nothing for the others.
\<close>

lemma query_pairs_toForm:
  "query_pairs (toForm obj)
     = map (\<lambda>kv. (encodeURIComponent (fst kv), encodeURIComponent (to_string (snd kv))))
         (filter (\<lambda>kv. truthy (snd kv)) obj)"
proof -
  let ?ps = "map (\<lambda>kv. (encodeURIComponent (fst kv), encodeURIComponent (to_string (snd kv))))
               (filter (\<lambda>kv. truthy (snd kv)) obj)"
  have "\<forall>p \<in> set ?ps. CHR ''&'' \<notin> set (fst p) \<and> CHR ''='' \<notin> set (fst p) \<and> CHR ''&'' \<notin> set (snd p)"
    using encodeURIComponent_no_delim by auto
  then show ?thesis
    using query_pairs_join [of ?ps] by (simp only: toForm_as_pairs)
qed

lemma login_body:
  "bodies_sent (login ver apiKey s net email password orgId)
     = [Some (toForm [(''email'', email), (''password'', password),
                      (''mode'', Str ''token''), (''org_id'', orgId)])]"
  by (simp add: login_def bodies_sent_def fetches_def login_call_def Let_def split: sum.splits)

lemma login_omits_org_id:
  "bodies_sent (login V4 ''key'' new_session net_down (Str ''user@example.com'') (Str ''secret'') Undefined)
     = [Some ''email=user%40example.com&password=secret&mode=token'']"
  by code_simp

subsection \<open>The titles of an error list\<close>

lemma titles_of_error_objects:
  "list_all error_object es \<Longrightarrow>
     \<exists>ts. map_title es = Inr ts
        \<and> map (\<lambda>x. if x = Null \<or> x = Undefined then [] else to_string x) (filter truthy ts)
            = nonempty_titles es"
proof (induction es)
  case Nil
  then show ?case by simp
next
  case (Cons e es)
  then obtain ts where ts: "map_title es = Inr ts"
    "map (\<lambda>x. if x = Null \<or> x = Undefined then [] else to_string x) (filter truthy ts) = nonempty_titles es"
    by auto
  from Cons.prems obtain fs where e: "e = Obj fs"
    by (cases e) auto
  show ?case
  proof (cases "map_of fs ''title''")
    case None
    then show ?thesis using ts e by simp
  next
    case (Some t)
    with Cons.prems e obtain str where "t = Str str"
      by (cases t) auto
    then show ?thesis using ts e Some by simp
  qed
qed

subsection \<open>The earlier client\<close>

text \<open>
  The earlier \<open>handleErrors\<close> on the error list of the specification's example, and on a
  list of one error: the titles never reach the message.
\<close>

lemma legacy_handleErrors_example:
  "legacy_handleErrors (Obj [(''errors'', Arr [Obj [(''title'', Str ''Invalid field'')],
                                               Obj [(''title'', Str ''Missing param'')]])])
     = TypeError"
  "legacy_handleErrors (Obj [(''errors'', Arr [Obj [(''title'', Str ''Invalid field'')]])])
     = Error ''Request Failed. Request Response: undefined''"
  by (simp_all add: legacy_handleErrors_def)

text \<open>
  The earlier \<open>login\<close> throws on every failure response and leaves the token as it was;
  on a success whose body has a \<open>token\<close> it stores that token, and every later call sends it.
\<close>

lemma legacy_request_sends_token:
  assumes "c \<in> set (fetches (legacy_request apiKey tok net endpoint params opts))"
  shows "header_of c ''X-PS-Auth-Token'' = Some tok"
proof (cases "truthy tok")
  case True
  with assms show ?thesis
    by (simp add: legacy_request_with_token header_of_def map_of_merge_headers)
next
  case False
  with assms show ?thesis
    by (simp add: legacy_request_def fetches_def)
qed

lemma legacy_login_throws_or_stores:
  assumes "net (login_call V4 apiKey
                  (legacy_toForm [(''email'', email), (''password'', password),
                                  (''mode'', Str ''token''), (''org_id'', orgId)])) = Inr r"
  shows "(\<not> ok r \<longrightarrow>
            (\<exists>e. fst (legacy_login apiKey tok net email password orgId) = Inl e)
            \<and> left_behind (legacy_login apiKey tok net email password orgId) = tok)
       \<and> (ok r \<and> json_body r = Some json \<and> get_prop json ''token'' = Inr t \<longrightarrow>
            fst (legacy_login apiKey tok net email password orgId) = Inr ()
            \<and> left_behind (legacy_login apiKey tok net email password orgId) = t
            \<and> (\<forall>net' endpoint params opts.
                  \<forall>c \<in> set (fetches (legacy_request apiKey
                                        (left_behind (legacy_login apiKey tok net email password orgId))
                                        net' endpoint params opts)).
                    header_of c ''X-PS-Auth-Token'' = Some t))"
proof -
  have outcome: "(\<not> ok r \<longrightarrow>
            (\<exists>e. fst (legacy_login apiKey tok net email password orgId) = Inl e)
            \<and> left_behind (legacy_login apiKey tok net email password orgId) = tok)
       \<and> (ok r \<and> json_body r = Some json \<and> get_prop json ''token'' = Inr t \<longrightarrow>
            fst (legacy_login apiKey tok net email password orgId) = Inr ()
            \<and> left_behind (legacy_login apiKey tok net email password orgId) = t)"
    using assms
    by (auto simp add: legacy_login_def Let_def left_behind_def fresh_def resp_json_def
        split: option.splits sum.splits)
  then show ?thesis
    using legacy_request_sends_token by metis
qed

section \<open>The claims\<close>

text \<open>
  C1. Every operation other than login is a call of \<open>request\<close>. Whatever the path, the
  parameters, the options and the network are, a call made while the session token is
  \<^verbatim>\<open>null\<close> throws the error that tells the caller to authenticate first, and the list of
  \<^verbatim>\<open>fetch\<close> calls it made is empty. The earlier client does the same.
\<close>

theorem unauthenticated_call_throws_without_fetch:
  "request ver apiKey (s\<lparr>authToken := Null\<rparr>) net endpoint params opts
     = (Inl (Error ''No auth token. Make sure to authenticate.login() first''), [], opts)
   \<and> fetches (request ver apiKey (s\<lparr>authToken := Null\<rparr>) net endpoint params opts) = []
   \<and> legacy_request apiKey Null net endpoint params opts
     = (Inl (Error ''No auth token. Make sure to authenticate.login() first''), [], opts)
   \<and> fetches (legacy_request apiKey Null net endpoint params opts) = []"
  by (simp add: request_def legacy_request_def fetches_def)

text \<open>
  C2. Let the network answer the login call with a response \<open>r\<close>. If \<open>r\<close> is a failure,
  \<open>login\<close> throws the error of the classifier and the session is the one it started with.
  If \<open>r\<close> is a success and the unwrapped body has the token \<open>t\<close>, \<open>login\<close> returns, the
  session holds \<open>t\<close>, every call of \<^verbatim>\<open>fetch\<close> made by a later call of \<open>request\<close> carries
  \<^verbatim>\<open>X-PS-Auth-Token\<close> equal to \<open>t\<close>, and, \<open>t\<close> being truthy, every later call of \<open>request\<close>
  makes exactly one such call.
\<close>

theorem login_stores_token_or_leaves_session:
  assumes "net (login_call ver apiKey
                  (toForm [(''email'', email), (''password'', password),
                           (''mode'', Str ''token''), (''org_id'', orgId)])) = Inr r"
  shows "(\<not> ok r \<longrightarrow>
            login ver apiKey s net email password orgId
              = (Inl (fst (handleErrors (fresh r) ''login'')),
                 [login_call ver apiKey
                    (toForm [(''email'', email), (''password'', password),
                             (''mode'', Str ''token''), (''org_id'', orgId)])],
                 s))
       \<and> (ok r \<and> responseType ver (fresh r) = Inr json \<and> get_prop json ''token'' = Inr t \<longrightarrow>
            fst (login ver apiKey s net email password orgId) = Inr ()
            \<and> authToken (left_behind (login ver apiKey s net email password orgId)) = t
            \<and> (\<forall>net' endpoint params opts.
                  \<forall>c \<in> set (fetches (request ver apiKey
                                        (left_behind (login ver apiKey s net email password orgId))
                                        net' endpoint params opts)).
                    header_of c ''X-PS-Auth-Token'' = Some t)
            \<and> (truthy t \<longrightarrow>
                 (\<forall>net' endpoint params opts.
                    headers_sent ''X-PS-Auth-Token''
                      (request ver apiKey (left_behind (login ver apiKey s net email password orgId))
                         net' endpoint params opts) = [Some t])))"
proof (intro conjI impI)
  assume "\<not> ok r"
  with assms show "login ver apiKey s net email password orgId
              = (Inl (fst (handleErrors (fresh r) ''login'')),
                 [login_call ver apiKey
                    (toForm [(''email'', email), (''password'', password),
                             (''mode'', Str ''token''), (''org_id'', orgId)])],
                 s)"
    by (simp add: login_def Let_def)
next
  assume ok: "ok r \<and> responseType ver (fresh r) = Inr json \<and> get_prop json ''token'' = Inr t"
  let ?run = "login ver apiKey s net email password orgId"
  from ok obtain g where g: "get_prop json ''org'' = Inr g"
    using get_prop_defined by blast
  from ok obtain f where f: "get_prop json ''two_factor'' = Inr f"
    using get_prop_defined by blast
  have run: "?run = (Inr (), [login_call ver apiKey
                    (toForm [(''email'', email), (''password'', password),
                             (''mode'', Str ''token''), (''org_id'', orgId)])],
                     s\<lparr>authToken := t, org := g, isTwoFactor := f\<rparr>)"
    using assms ok g f by (simp add: login_def Let_def)
  show "fst ?run = Inr ()" by (simp add: run)
  show tok: "authToken (left_behind ?run) = t" by (simp add: run left_behind_def)
  show "\<forall>net' endpoint params opts.
          \<forall>c \<in> set (fetches (request ver apiKey (left_behind ?run) net' endpoint params opts)).
            header_of c ''X-PS-Auth-Token'' = Some t"
    using request_sends_session_token tok by metis
  show "\<forall>net' endpoint params opts.
          headers_sent ''X-PS-Auth-Token''
            (request ver apiKey (left_behind ?run) net' endpoint params opts) = [Some t]"
    if "truthy t"
    using that tok
    by (simp add: headers_sent_def request_with_token header_of_def map_of_merge_headers)
qed

theorem login_stores_token_or_leaves_session_witness:
  "login V4 ''key'' new_session (net_respond resp_unauthorized) (Str ''a@b.c'') (Str ''pw'') Undefined
     = (Inl (fst (handleErrors (fresh resp_unauthorized) ''login'')),
        [login_call V4 ''key'' (toForm [(''email'', Str ''a@b.c''), (''password'', Str ''pw''),
                                        (''mode'', Str ''token''), (''org_id'', Undefined)])],
        new_session)
   \<and> fst (handleErrors (fresh resp_unauthorized) ''login'')
       = Error ''Request Failed. Request Response: login = Bad credentials''
   \<and> fst (login V4 ''key'' new_session (net_respond resp_token) (Str ''a@b.c'') (Str ''pw'') Undefined) = Inr ()
   \<and> authToken (left_behind (login V4 ''key'' new_session (net_respond resp_token) (Str ''a@b.c'') (Str ''pw'') Undefined))
       = Str ''abc123''
   \<and> headers_sent ''X-PS-Auth-Token''
        (request V4 ''key''
           (left_behind (login V4 ''key'' new_session (net_respond resp_token) (Str ''a@b.c'') (Str ''pw'') Undefined))
           net_down ''/collections'' [] caller_options)
       = [Some (Str ''abc123'')]"
proof -
  let ?b = "toForm [(''email'', Str ''a@b.c''), (''password'', Str ''pw''),
                    (''mode'', Str ''token''), (''org_id'', Undefined)]"
  have n1: "net_respond resp_unauthorized (login_call V4 ''key'' ?b) = Inr resp_unauthorized"
    by (simp add: net_respond_def)
  have n2: "net_respond resp_token (login_call V4 ''key'' ?b) = Inr resp_token"
    by (simp add: net_respond_def)
  have bad: "\<not> ok resp_unauthorized"
    by (simp add: resp_unauthorized_def)
  have good: "ok resp_token
      \<and> responseType V4 (fresh resp_token)
          = Inr (Obj [(''token'', Str ''abc123''), (''org'', Str ''O1''), (''two_factor'', Bool False)])
      \<and> get_prop (Obj [(''token'', Str ''abc123''), (''org'', Str ''O1''), (''two_factor'', Bool False)]) ''token''
          = Inr (Str ''abc123'')"
    by (simp add: resp_token_def fresh_def resp_clone_def resp_json_def)
  have msg: "fst (handleErrors (fresh resp_unauthorized) ''login'')
       = Error ''Request Failed. Request Response: login = Bad credentials''"
    by (simp add: resp_unauthorized_def handleErrors_def fresh_def resp_json_def array_join_def)
  show ?thesis
    using login_stores_token_or_leaves_session
            [where net = "net_respond resp_unauthorized" and r = resp_unauthorized and ver = V4
               and apiKey = "''key''" and email = "Str ''a@b.c''" and password = "Str ''pw''"
               and orgId = Undefined and s = new_session, OF n1]
          login_stores_token_or_leaves_session
            [where net = "net_respond resp_token" and r = resp_token and ver = V4
               and apiKey = "''key''" and email = "Str ''a@b.c''" and password = "Str ''pw''"
               and orgId = Undefined and s = new_session and t = "Str ''abc123''"
               and json = "Obj [(''token'', Str ''abc123''), (''org'', Str ''O1''), (''two_factor'', Bool False)]",
             OF n2]
          bad good msg
    by simp
qed

text \<open>
  C3. The claim says a header supplied by the caller overrides the fixed header of the same
  name. The catalogue's own \<^verbatim>\<open>faces.add\<close> supplies
  \<^verbatim>\<open>Content-Type: application/x-www-form-urlencoded\<close>; on a client that is logged in the
  call of \<^verbatim>\<open>fetch\<close> it makes carries \<^verbatim>\<open>Content-Type: application/json\<close>, for every
  network and every data.
\<close>

theorem faces_add_content_type_is_overwritten:
  "headers_sent ''Content-Type'' (faces_add apiKey logged_in net data)
     = [Some (Str ''application/json'')]"
  by (simp add: faces_add_def headers_sent_def header_of_def request_with_token logged_in_def
        map_of_merge_headers)

text \<open>
  C4, as amended. For a response whose status is not loosely equal to \<^verbatim>\<open>"404"\<close> and whose
  body parses as a JSON object with an \<open>errors\<close> list of objects, each with a string
  \<open>title\<close> or none, the classifier reads the body and throws one error whose message is
  the request location followed by the non-empty titles, in order, joined with \<^verbatim>\<open>" | "\<close>.
\<close>

theorem classifier_joins_nonempty_titles:
  assumes "\<not> loose_eq_404 (status r)"
    and "json_body r = Some (Obj fs)"
    and "map_of fs ''errors'' = Some (Arr es)"
    and "list_all error_object es"
  shows "handleErrors (fresh r) location
           = (Error (''Request Failed. Request Response: '' @ location @ '' = ''
                       @ join '' | '' (nonempty_titles es)),
              (fresh r)\<lparr>bodyUsed := True\<rparr>)
         \<and> sublist (join '' | '' (nonempty_titles es))
             (''Request Failed. Request Response: '' @ location @ '' = ''
                @ join '' | '' (nonempty_titles es))
         \<and> sublist location
             (''Request Failed. Request Response: '' @ location @ '' = ''
                @ join '' | '' (nonempty_titles es))"
proof -
  let ?joined = "join '' | '' (nonempty_titles es)"
  let ?msg = "''Request Failed. Request Response: '' @ location @ '' = '' @ ?joined"
  from titles_of_error_objects [OF assms(4)] obtain ts where
    ts: "map_title es = Inr ts"
        "map (\<lambda>x. if x = Null \<or> x = Undefined then [] else to_string x) (filter truthy ts)
           = nonempty_titles es"
    by blast
  have joined: "array_join '' | '' (filter truthy ts) = ?joined"
    using ts(2) by (simp add: array_join_def)
  have thrown: "handleErrors (fresh r) location = (Error ?msg, (fresh r)\<lparr>bodyUsed := True\<rparr>)"
    using assms(1-3) ts(1) joined
    by (simp add: handleErrors_def fresh_def resp_json_def)
  have titles_in: "sublist ?joined ?msg"
    using sublist_appendI [of ?joined "''Request Failed. Request Response: '' @ location @ '' = ''" "[]"]
    by simp
  have location_in: "sublist location ?msg"
    by (rule sublist_appendI)
  from thrown titles_in location_in show ?thesis by simp
qed

theorem classifier_joins_nonempty_titles_witness:
  "handleErrors (fresh resp_two_errors) ''/media''
     = (Error ''Request Failed. Request Response: /media = Invalid field | Missing param'',
        (fresh resp_two_errors)\<lparr>bodyUsed := True\<rparr>)
   \<and> sublist ''Invalid field | Missing param''
        ''Request Failed. Request Response: /media = Invalid field | Missing param''"
proof -
  have 1: "\<not> loose_eq_404 (status resp_two_errors)"
    by (simp add: resp_two_errors_def)
  have 2: "json_body resp_two_errors
             = Some (Obj [(''errors'', Arr [Obj [(''title'', Str ''Invalid field'')],
                                            Obj [(''title'', Str ''Missing param'')]])])"
    by (simp add: resp_two_errors_def)
  have 3: "map_of [(''errors'', Arr [Obj [(''title'', Str ''Invalid field'')],
                                     Obj [(''title'', Str ''Missing param'')]])] ''errors''
             = Some (Arr [Obj [(''title'', Str ''Invalid field'')], Obj [(''title'', Str ''Missing param'')]])"
    by simp
  have 4: "list_all error_object [Obj [(''title'', Str ''Invalid field'')], Obj [(''title'', Str ''Missing param'')]]"
    by simp
  show ?thesis
    using classifier_joins_nonempty_titles [OF 1 2 3 4, of "''/media''"]
    by simp
qed

text \<open>
  The claim as stated fails on an empty title: the title is present, the titles joined
  with \<^verbatim>\<open>" | "\<close> are \<^verbatim>\<open>" | Missing param"\<close>, and the message does not contain that.
\<close>

theorem empty_title_counterexample:
  "fst (handleErrors (fresh resp_empty_title) ''/media'')
     = Error ''Request Failed. Request Response: /media = Missing param''
   \<and> join '' | '' (map to_string (spec_present_titles
         [Obj [(''title'', Str [])], Obj [(''title'', Str ''Missing param'')]]))
       = '' | Missing param''
   \<and> \<not> sublist '' | Missing param'' ''Request Failed. Request Response: /media = Missing param''"
proof -
  have thrown: "fst (handleErrors (fresh resp_empty_title) ''/media'')
     = Error ''Request Failed. Request Response: /media = Missing param''"
    by (simp add: resp_empty_title_def handleErrors_def fresh_def resp_json_def array_join_def)
  have expected: "join '' | '' (map to_string (spec_present_titles
         [Obj [(''title'', Str [])], Obj [(''title'', Str ''Missing param'')]]))
       = '' | Missing param''"
    by simp
  have absent: "\<not> sublist '' | Missing param'' ''Request Failed. Request Response: /media = Missing param''"
    by code_simp
  from thrown expected absent show ?thesis by simp
qed

text \<open>
  C5. For a response whose status is loosely equal to the string \<^verbatim>\<open>"404"\<close>, the classifier
  throws an error whose message is made of the request location and the status text, and
  it hands the response object back as it got it: the body has not been read.
\<close>

theorem not_found_is_classified_from_status_text:
  assumes "loose_eq_404 (status r)"
  shows "handleErrors (fresh r) location
           = (Error (''Request Failed. Request Response: '' @ location @ '' = '' @ statusText r),
              fresh r)
         \<and> bodyUsed (snd (handleErrors (fresh r) location)) = False
         \<and> (\<exists>msg. fst (handleErrors (fresh r) location) = Error msg
               \<and> sublist location msg \<and> sublist (statusText r) msg)"
proof -
  let ?msg = "''Request Failed. Request Response: '' @ location @ '' = '' @ statusText r"
  have thrown: "handleErrors (fresh r) location = (Error ?msg, fresh r)"
    using assms by (simp add: handleErrors_def fresh_def)
  have unread: "bodyUsed (fresh r) = False"
    by (simp add: fresh_def)
  have loc: "sublist location ?msg"
    by (rule sublist_appendI)
  have in_text: "sublist (statusText r) ?msg"
    using sublist_appendI [of "statusText r" "''Request Failed. Request Response: '' @ location @ '' = ''" "[]"]
    by simp
  from thrown unread loc in_text show ?thesis
    by simp
qed

theorem not_found_is_classified_from_status_text_witness:
  "loose_eq_404 (status resp_not_found)
   \<and> handleErrors (fresh resp_not_found) ''/collections/C1''
       = (Error ''Request Failed. Request Response: /collections/C1 = Not Found'',
          fresh resp_not_found)
   \<and> bodyUsed (snd (handleErrors (fresh resp_not_found) ''/collections/C1'')) = False"
proof -
  have h: "loose_eq_404 (status resp_not_found)"
    by (simp add: resp_not_found_def)
  show ?thesis
    using h not_found_is_classified_from_status_text [OF h, of "''/collections/C1''"]
    by (simp add: resp_not_found_def fresh_def)
qed

text \<open>
  C6, as amended. Both unwrappers try the JSON reading first. Variant A returns the raw
  bytes of the cloned body exactly when the body is not JSON, and the parsed value
  otherwise. Variant B returns the raw bytes when the body is not JSON and also when the
  parsed value is \<^verbatim>\<open>null\<close>, because reading \<^verbatim>\<open>json.data\<close> throws inside the same
  \<^verbatim>\<open>try\<close>; otherwise it returns the \<open>data\<close> property.
\<close>

theorem unwrappers_fall_back_to_raw_bytes:
  "responseType V4 (fresh r)
     = Inr (case json_body r of None \<Rightarrow> Bytes (raw_body r) | Some v \<Rightarrow> v)
   \<and> responseType V3 (fresh r)
     = Inr (case json_body r of
              None \<Rightarrow> Bytes (raw_body r)
            | Some Null \<Rightarrow> Bytes (raw_body r)
            | Some Undefined \<Rightarrow> Bytes (raw_body r)
            | Some (Obj fs) \<Rightarrow> (case map_of fs ''data'' of None \<Rightarrow> Undefined | Some d \<Rightarrow> d)
            | Some _ \<Rightarrow> Undefined)"
  by (simp add: fresh_def resp_clone_def resp_json_def resp_arrayBuffer_def
        split: option.splits jsval.splits)

theorem unwrappers_fall_back_to_raw_bytes_witness:
  "responseType V4 (fresh resp_binary) = Inr (Bytes [137, 80, 78, 71, 0, 255])
   \<and> responseType V3 (fresh resp_binary) = Inr (Bytes [137, 80, 78, 71, 0, 255])"
  using unwrappers_fall_back_to_raw_bytes [of resp_binary]
  by (simp add: resp_binary_def)

text \<open>
  The claim as stated fails for variant B: the body \<^verbatim>\<open>null\<close> is JSON, parsing succeeds,
  and the raw bytes are returned all the same.
\<close>

theorem variant_b_null_counterexample:
  "json_body resp_null = Some Null
   \<and> responseType V3 (fresh resp_null) = Inr (Bytes (raw_body resp_null))"
  by (simp add: resp_null_def fresh_def resp_clone_def resp_json_def resp_arrayBuffer_def)

text \<open>
  C7. When the body of a response parses as a JSON object, variant B returns the \<open>data\<close>
  property of that object and nothing else of it (\<^verbatim>\<open>undefined\<close> when the object has no
  such property).
\<close>

theorem variant_b_returns_data_field:
  "json_body r = Some (Obj fs) \<Longrightarrow>
     responseType V3 (fresh r) = Inr (case map_of fs ''data'' of None \<Rightarrow> Undefined | Some d \<Rightarrow> d)"
  by (simp add: fresh_def resp_clone_def resp_json_def)

theorem variant_b_returns_data_field_witness:
  "json_body resp_envelope
     = Some (Obj [(''data'', Obj [(''id'', Str ''abc'')]), (''meta'', Obj [(''total'', Num 1)])])
   \<and> responseType V3 (fresh resp_envelope) = Inr (Obj [(''id'', Str ''abc'')])"
  using variant_b_returns_data_field
          [of resp_envelope "[(''data'', Obj [(''id'', Str ''abc'')]), (''meta'', Obj [(''total'', Num 1)])]"]
  by (simp add: resp_envelope_def)


text \<open>
  C8. The claim holds for \<open>toForm\<close> of \<^verbatim>\<open>src/main.js\<close> (see \<open>query_pairs_toForm\<close> and
  \<open>login_omits_org_id\<close>). The \<open>toForm\<close> of the earlier client has no filter: a login without
  an organization id sends \<^verbatim>\<open>org_id=undefined\<close>.
\<close>

theorem legacy_login_sends_undefined_org_id:
  "bodies_sent (legacy_login ''key'' Null net_down (Str ''user@example.com'') (Str ''secret'') Undefined)
     = [Some ''email=user%40example.com&password=secret&mode=token&org_id=undefined'']
   \<and> query_pairs ''email=user%40example.com&password=secret&mode=token&org_id=undefined''
     = [(''email'', ''user%40example.com''), (''password'', ''secret''), (''mode'', ''token''),
        (''org_id'', ''undefined'')]"
  by code_simp

text \<open>
  C9. A call of \<open>request\<close> that passes the token check makes one call of \<^verbatim>\<open>fetch\<close>, and
  the query string of its URL is the serialization of the parameters; a call that fails the
  check sends nothing. Cut at every \<^verbatim>\<open>&\<close> and at the first \<^verbatim>\<open>=\<close> of each piece and
  decoded, the query string gives back every supplied name with the text of its value, in
  order, none dropped, an empty value included. The encoding is the URL encoding of forms:
  a space is written \<^verbatim>\<open>+\<close>; a letter, a digit and \<^verbatim>\<open>* - . _\<close> are kept; every other byte
  is written \<^verbatim>\<open>%\<close> and its two upper-case hexadecimal digits, so that \<^verbatim>\<open>&\<close> is \<^verbatim>\<open>%26\<close>
  and an encoded name or value has no raw \<^verbatim>\<open>&\<close> or \<^verbatim>\<open>=\<close>. The text of a value is the
  one \<^verbatim>\<open>String\<close> gives: a string is itself, an integer is its decimal numeral.
\<close>

theorem query_parameters_all_encoded:
  "searches_sent (request ver apiKey s net endpoint params opts)
     = (if truthy (authToken s) then [URLSearchParams_toString params] else [])
   \<and> searches_sent (legacy_request apiKey tok net endpoint params opts)
     = (if truthy tok then [URLSearchParams_toString params] else [])
   \<and> query_pairs (URLSearchParams_toString params)
     = map (\<lambda>kv. (form_encode (fst kv), form_encode (to_string (snd kv)))) params
   \<and> map (\<lambda>p. (form_decode (fst p), form_decode (snd p)))
         (query_pairs (URLSearchParams_toString params))
     = map (\<lambda>kv. (fst kv, to_string (snd kv))) params
   \<and> form_encode [] = []
   \<and> form_encode (c # cs)
     = (if c = CHR '' '' then ''+''
        else if c \<in> set ''ABCDEFGHIJKLMNOPQRSTUVWXYZabcdefghijklmnopqrstuvwxyz0123456789*-._''
        then [c]
        else [CHR ''%'', ''0123456789ABCDEF'' ! ((of_char c :: nat) div 16),
              ''0123456789ABCDEF'' ! ((of_char c :: nat) mod 16)])
       @ form_encode cs
   \<and> set (form_encode x)
       \<subseteq> set ''ABCDEFGHIJKLMNOPQRSTUVWXYZabcdefghijklmnopqrstuvwxyz0123456789*-._+%''
   \<and> CHR ''&'' \<notin> set (form_encode x) \<and> CHR ''='' \<notin> set (form_encode x)
   \<and> form_encode ''&'' = ''%26''
   \<and> to_string (Str v) = v
   \<and> to_string Undefined = ''undefined''
   \<and> to_string Null = ''null''
   \<and> to_string (Bool b) = (if b then ''true'' else ''false'')
   \<and> read_int (to_string (Num n)) = sint n
   \<and> set (to_string (Num n)) \<subseteq> set ''-0123456789''
   \<and> to_string (NumOther t) = t
   \<and> to_string (Arr vs)
     = join '','' (map (\<lambda>e. if e = Null \<or> e = Undefined then [] else to_string e) vs)
   \<and> to_string (Obj fs) = ''[object Object]''"
proof -
  have amp: "form_encode ''&'' = ''%26''"
    by code_simp
  have empty: "form_encode [] = []"
    by (simp add: form_encode_def)
  have sent: "searches_sent (request ver apiKey s net endpoint params opts)
     = (if truthy (authToken s) then [URLSearchParams_toString params] else [])"
    by (simp add: searches_sent_def request_with_token) (simp add: request_def fetches_def)
  have legacy_sent: "searches_sent (legacy_request apiKey tok net endpoint params opts)
     = (if truthy tok then [URLSearchParams_toString params] else [])"
    by (simp add: searches_sent_def legacy_request_with_token) (simp add: legacy_request_def fetches_def)
  have number: "read_int (to_string (Num n)) = sint n \<and> set (to_string (Num n)) \<subseteq> set ''-0123456789''"
    using read_int_show_int [of "sint n"] show_int_alphabet [of "sint n"]
    by (simp only: to_string.simps) 
  have others: "to_string (Str v) = v \<and> to_string Undefined = ''undefined'' \<and> to_string Null = ''null''
      \<and> to_string (Bool b) = (if b then ''true'' else ''false'') \<and> to_string (NumOther t) = t
      \<and> to_string (Arr vs)
           = join '','' (map (\<lambda>e. if e = Null \<or> e = Undefined then [] else to_string e) vs)
      \<and> to_string (Obj fs) = ''[object Object]''"
    by (simp only: to_string.simps)
  from amp empty sent legacy_sent number others
       query_pairs_URLSearchParams [of params] decoded_pairs [of params]
       form_encode_char [of c cs] form_encode_alphabet [of x] form_encode_no_delim [of x]
  show ?thesis
    by blast
qed

theorem query_parameters_all_encoded_witness:
  "searches_sent (request V4 ''key'' logged_in net_down ''/collections/search'' example_params no_options)
     = [''query=a%26b+c%2Bd%25%2F%7E%3D%C3%A9&page=2&sort=&ids=x%2C%2C-15&flag=true&big=1e%2B21&u=undefined'']
   \<and> map (\<lambda>p. (form_decode (fst p), form_decode (snd p)))
         (query_pairs ''query=a%26b+c%2Bd%25%2F%7E%3D%C3%A9&page=2&sort=&ids=x%2C%2C-15&flag=true&big=1e%2B21&u=undefined'')
     = [(''query'', ''a&b c+d%/~='' @ [CHR 0xC3, CHR 0xA9]), (''page'', ''2''), (''sort'', []),
        (''ids'', ''x,,-15''), (''flag'', ''true''), (''big'', ''1e+21''), (''u'', ''undefined'')]"
proof -
  have t: "truthy (authToken logged_in)"
    by (simp add: logged_in_def)
  have q: "URLSearchParams_toString example_params
             = ''query=a%26b+c%2Bd%25%2F%7E%3D%C3%A9&page=2&sort=&ids=x%2C%2C-15&flag=true&big=1e%2B21&u=undefined''"
    by code_simp
  have e: "map (\<lambda>kv. (fst kv, to_string (snd kv))) example_params
           = [(''query'', ''a&b c+d%/~='' @ [CHR 0xC3, CHR 0xA9]), (''page'', ''2''), (''sort'', []),
              (''ids'', ''x,,-15''), (''flag'', ''true''), (''big'', ''1e+21''), (''u'', ''undefined'')]"
    by code_simp
  have sent: "searches_sent (request V4 ''key'' logged_in net_down ''/collections/search'' example_params no_options)
                = [URLSearchParams_toString example_params]"
    using query_parameters_all_encoded
            [of V4 "''key''" logged_in net_down "''/collections/search''" example_params no_options]
    by (simp only: t if_True)
  have decoded: "map (\<lambda>p. (form_decode (fst p), form_decode (snd p)))
                   (query_pairs (URLSearchParams_toString example_params))
                 = map (\<lambda>kv. (fst kv, to_string (snd kv))) example_params"
    using query_parameters_all_encoded
            [of V4 "''key''" logged_in net_down "''/collections/search''" example_params no_options]
    by blast
  from sent decoded show ?thesis
    by (simp only: q e)
qed

text \<open>
  C10, as amended. A call of \<open>request\<close> that passes the token check leaves the caller's
  options object with \<open>headers\<close> set to the merged header map, whatever the network does,
  and \<^verbatim>\<open>fetch\<close> receives that same object. A call that fails the token check throws before
  the assignment and leaves the options object as it was. The earlier client does the same.
\<close>

theorem request_leaves_merged_headers:
  "left_behind (request ver apiKey s net endpoint params opts)
     = (if truthy (authToken s)
        then opts\<lparr>headers := Some (merge_headers (headers opts) (authToken s) apiKey)\<rparr>
        else opts)
   \<and> map fc_init (fetches (request ver apiKey s net endpoint params opts))
     = (if truthy (authToken s)
        then [opts\<lparr>headers := Some (merge_headers (headers opts) (authToken s) apiKey)\<rparr>]
        else [])
   \<and> left_behind (legacy_request apiKey tok net endpoint params opts)
     = (if truthy tok
        then opts\<lparr>headers := Some (merge_headers (headers opts) tok apiKey)\<rparr>
        else opts)"
  by (simp add: request_with_token legacy_request_with_token)
     (simp add: request_def legacy_request_def left_behind_def fetches_def)

theorem request_leaves_merged_headers_witness:
  "left_behind (request V4 ''key'' logged_in net_down ''/collections'' [] caller_options)
     = caller_options\<lparr>headers := Some [(''Accept'', Str ''application/json''),
                                         (''X-PS-Auth-Token'', Str ''tok''),
                                         (''X-PS-API-Key'', Str ''key''),
                                         (''Content-Type'', Str ''application/json'')]\<rparr>"
  using request_leaves_merged_headers [of V4 "''key''" logged_in net_down "''/collections''" "[]" caller_options]
  by (simp add: logged_in_def caller_options_def merge_headers_def)

text \<open>
  The claim as stated fails for a call made before login: the options object the caller
  passed is returned untouched, and its headers are not the merged map.
\<close>

theorem unauthenticated_call_leaves_options_counterexample:
  "left_behind (request V4 ''key'' new_session (net_respond resp_envelope) ''/collections'' [] caller_options)
     = caller_options
   \<and> headers caller_options
       \<noteq> Some (merge_headers (headers caller_options) (authToken new_session) ''key'')"
  by (simp add: request_def left_behind_def new_session_def caller_options_def merge_headers_def)

end
